theory Spec2Isabelle
  imports Complex_Main
begin

section \<open>The macro-task queue of test\_vectormacrotask.cc\<close>

text \<open>
  The development follows \<^verbatim>\<open>src/madness/mra/test_vectormacrotask.cc\<close>: the round-robin
  partition of the universe into subworlds (\<^verbatim>\<open>create_worlds\<close>), the task objects and
  their archive form, and the queue \<^verbatim>\<open>macro_taskq\<close> with its scheduler on universe
  rank 0.

  Every way the C++ leaves the normal control flow is a value of \<open>error\<close>:
  \<^verbatim>\<open>MADNESS_EXCEPTION\<close>, a failed \<^verbatim>\<open>MADNESS_ASSERT\<close>, an archive that cannot be read,
  and the three kinds of undefined behaviour the code can reach (an integer remainder by
  zero, a dereferenced null \<^verbatim>\<open>shared_ptr\<close>, \<^verbatim>\<open>operator[]\<close> past the end of a vector).
\<close>

datatype error =
    MadnessException
  | AssertFailed
  | DivideByZero
  | BadPointer
  | OutOfRange
  | ArchiveFailure

subsection \<open>create\_worlds\<close>

text \<open>
  \<^verbatim>\<open>for (int i=0; i<universe.size(); ++i) process_list[i%nworld].push_back(i);\<close>
  The ranks are non-negative \<^verbatim>\<open>int\<close>s and \<^verbatim>\<open>nworld\<close> is a \<^verbatim>\<open>size_t\<close>: the conversion of
  \<^verbatim>\<open>i\<close> to \<^verbatim>\<open>size_t\<close> keeps its value, so both are natural numbers here. The guard in
  front of the loop lets \<^verbatim>\<open>nworld == 0\<close> through, and then \<^verbatim>\<open>i%nworld\<close> is a remainder
  by zero.
\<close>

fun push_back_ranks :: "nat \<Rightarrow> nat list \<Rightarrow> nat list list \<Rightarrow> error + nat list list" where
  "push_back_ranks nworld [] process_list = Inr process_list"
| "push_back_ranks nworld (i # rest) process_list =
     (if nworld = 0 then Inl DivideByZero
      else push_back_ranks nworld rest
             (process_list[i mod nworld := process_list ! (i mod nworld) @ [i]]))"

text \<open>
  The second loop walks \<^verbatim>\<open>process_list\<close> and resets \<^verbatim>\<open>all_worlds\<close> whenever the calling
  rank is found in a group; a world is represented by the list of universe ranks of its
  communicator, and \<open>None\<close> is the null \<^verbatim>\<open>shared_ptr\<close> the function starts with.
\<close>

fun reset_all_worlds :: "nat \<Rightarrow> nat list list \<Rightarrow> nat list option \<Rightarrow> nat list option" where
  "reset_all_worlds rank [] all_worlds = all_worlds"
| "reset_all_worlds rank (pl # rest) all_worlds =
     reset_all_worlds rank rest (if rank \<in> set pl then Some pl else all_worlds)"

definition create_worlds :: "nat \<Rightarrow> nat \<Rightarrow> nat \<Rightarrow> error + nat list option" where
  "create_worlds universe_size universe_rank nworld =
     (if universe_size < nworld then Inl MadnessException
      else case push_back_ranks nworld [0..<universe_size] (replicate nworld []) of
             Inl e \<Rightarrow> Inl e
           | Inr process_list \<Rightarrow> Inr (reset_all_worlds universe_rank process_list None))"

text \<open>
  The constructor of \<^verbatim>\<open>macro_taskq\<close> takes \<^verbatim>\<open>int nworld\<close> and passes it to the \<^verbatim>\<open>size_t\<close>
  parameter of \<^verbatim>\<open>create_worlds\<close>: the conversion is modulo \<open>2^64\<close>.
\<close>

definition size_t_of_int :: "int \<Rightarrow> nat" where
  "size_t_of_int n = nat (n mod 2 ^ 64)"

subsection \<open>std::to\_string\<close>

definition digit :: "nat \<Rightarrow> char" where
  "digit n = ''0123456789'' ! n"

fun to_string_nat :: "nat \<Rightarrow> string" where
  "to_string_nat n =
     (if n < 10 then [digit n] else to_string_nat (n div 10) @ [digit (n mod 10)])"

declare to_string_nat.simps [simp del]

definition to_string :: "int \<Rightarrow> string" where
  "to_string n =
     (if n < 0 then CHR ''-'' # to_string_nat (nat (- n)) else to_string_nat (nat n))"

subsection \<open>Tasks and their payload\<close>

text \<open>
  \<^verbatim>\<open>enum Status {Running, Waiting, Complete, Unknown}\<close>, in the order of the source.
\<close>

datatype Status = Running | Waiting | Complete | Unknown

text \<open>
  A \<^verbatim>\<open>Function<T,NDIM>\<close> is a shared pointer to its implementation: \<open>None\<close> is the
  uninitialised function (\<^verbatim>\<open>is_initialized()\<close> false, the state after \<^verbatim>\<open>clear()\<close>),
  \<open>Some h\<close> an initialised one with handle \<open>h\<close>. The coefficients behind a handle are
  not looked at anywhere in this file.
\<close>

type_synonym Function = "nat option"

text \<open>
  \<^verbatim>\<open>struct data_type\<close>. The members \<^verbatim>\<open>d\<close>, \<^verbatim>\<open>i\<close>, \<^verbatim>\<open>f\<close> carry the prefix \<open>data_\<close>
  because a one-letter record field would capture every variable of that name. The two
  \<^verbatim>\<open>double\<close>s of the file (\<^verbatim>\<open>d\<close> and \<^verbatim>\<open>priority\<close>) are only stored and copied, never
  computed with; they are reals here.
\<close>

record data_type =
  data_d :: real
  data_i :: int
  data_f :: Function
  filename :: string

text \<open>
  \<^verbatim>\<open>MacroTaskBase\<close> (\<^verbatim>\<open>priority\<close>, \<^verbatim>\<open>stat\<close>) together with the members \<^verbatim>\<open>data\<close> and
  \<^verbatim>\<open>result\<close> of its only concrete subclass \<^verbatim>\<open>MacroTask<resultT,dataT>\<close>.
\<close>

record MacroTask =
  priority :: real
  stat :: Status
  data :: data_type
  result :: Function


definition data_type_ctor :: "int \<Rightarrow> real \<Rightarrow> Function \<Rightarrow> nat \<Rightarrow> data_type \<times> nat" where
  "data_type_ctor i0 d0 f0 ii =
     (\<lparr>data_d = d0, data_i = i0, data_f = f0, filename = ''dummy'' @ to_string (int ii)\<rparr>,
      Suc ii)"


definition MacroTask_ctor :: "data_type \<Rightarrow> MacroTask" where
  "MacroTask_ctor dt = \<lparr>priority = 0, stat = Unknown, data = dt, result = None\<rparr>"

subsection \<open>Archiving a task pointer\<close>















subsection \<open>The queue object and the memory it acts on\<close>

text \<open>
  What \<^verbatim>\<open>save\<close> and the parallel output archive leave on disk under a file name:
  \<^verbatim>\<open>ar & d & i & f\<close> for a payload, one function for a result.
\<close>

datatype blob = Data_blob real int Function | Function_blob Function

text \<open>
  The observable steps of a run, in program order: every access to a named file, every
  \<^verbatim>\<open>run\<close> of a task (by the address of the task object) and every call of
  \<^verbatim>\<open>set_complete\<close> (by the task number passed).
\<close>

datatype event =
    Write string
  | Read string
  | Remove string
  | RunTask nat
  | SetComplete int

text \<open>
  The members of \<^verbatim>\<open>macro_taskq\<close> on one process (\<^verbatim>\<open>universe\<close> as rank and size,
  \<^verbatim>\<open>subworld_ptr\<close>, \<^verbatim>\<open>taskq\<close>) and the memory its methods act on. The elements of
  \<^verbatim>\<open>taskq\<close> are \<^verbatim>\<open>shared_ptr\<close>s: addresses into \<open>heap\<close>, the task objects of the
  process, so that two entries holding the same pointer share one object. An address
  past the end of \<open>heap\<close> stands for a null pointer. \<open>files\<close> is the directory the
  archives are written to, \<open>trace\<close> the steps taken so far.
\<close>

record macro_taskq =
  universe_rank :: nat
  universe_size :: nat
  subworld_ptr :: "nat list option"
  taskq :: "nat list"
  heap :: "MacroTask list"
  files :: "string \<rightharpoonup> blob"
  trace :: "event list"

text \<open>
  The constructor: an empty \<^verbatim>\<open>taskq\<close>, and \<^verbatim>\<open>create_worlds(universe,nworld)\<close> with the
  \<^verbatim>\<open>int\<close> argument converted to \<^verbatim>\<open>size_t\<close>; \<^verbatim>\<open>*(subworld_ptr.get())\<close> then
  dereferences the pointer returned.
\<close>

definition macro_taskq_ctor ::
  "nat \<Rightarrow> nat \<Rightarrow> int \<Rightarrow> MacroTask list \<Rightarrow> (string \<rightharpoonup> blob) \<Rightarrow> error + macro_taskq" where
  "macro_taskq_ctor usize urank nworld h fs =
     (case create_worlds usize urank (size_t_of_int nworld) of
        Inl e \<Rightarrow> Inl e
      | Inr None \<Rightarrow> Inl BadPointer
      | Inr (Some w) \<Rightarrow>
          Inr \<lparr>universe_rank = urank, universe_size = usize, subworld_ptr = Some w,
               taskq = [], heap = h, files = fs, trace = []\<rparr>)"

subsection \<open>Methods of a task, called through a pointer\<close>






text \<open>
  The free function \<^verbatim>\<open>localize\<close> for a \<^verbatim>\<open>Function\<close> is the only code of the file that
  removes a file (\<^verbatim>\<open>ar2.remove()\<close>); no method of \<^verbatim>\<open>macro_taskq\<close> calls it. \<open>in_origin\<close>
  is the test \<^verbatim>\<open>data.world().id()==origin.id()\<close>.
\<close>

definition localize :: "Function \<Rightarrow> bool \<Rightarrow> int \<Rightarrow> string \<Rightarrow> macro_taskq \<Rightarrow> error + Function \<times> macro_taskq" where
  "localize f0 in_origin ident name s =
     (let fname = name @ to_string ident;
          s1 = (if f0 \<noteq> None \<and> in_origin
                then s\<lparr>files := (files s)(fname \<mapsto> Function_blob f0),
                       trace := trace s @ [Write fname]\<rparr>
                else s)
      in case files s1 fname of
           Some (Function_blob g) \<Rightarrow>
             Inr (g, s1\<lparr>files := (files s1)(fname := None),
                        trace := trace s1 @ [Read fname, Remove fname]\<rparr>)
         | _ \<Rightarrow> Inl ArchiveFailure)"

subsection \<open>The scheduler on universe rank 0\<close>

text \<open>
  \<^verbatim>\<open>std::find_if(taskq.begin(),taskq.end(),is_Waiting)\<close>: the position of the first
  pointer whose task has \<^verbatim>\<open>stat==Waiting\<close>, the length of the list for \<^verbatim>\<open>taskq.end()\<close>.
  Every pointer up to that position is dereferenced.
\<close>

fun find_if_Waiting :: "MacroTask list \<Rightarrow> nat list \<Rightarrow> error + nat" where
  "find_if_Waiting h [] = Inr 0"
| "find_if_Waiting h (p # ps) =
     (if p < length h
      then (if stat (h ! p) = Waiting then Inr 0
            else (case find_if_Waiting h ps of Inl e \<Rightarrow> Inl e | Inr n \<Rightarrow> Inr (Suc n)))
      else Inl BadPointer)"

text \<open>
  \<^verbatim>\<open>get_scheduled_task_number_local\<close>. The return type is \<^verbatim>\<open>long\<close>; the mutex it holds
  has no counterpart in a sequential model.
\<close>

definition get_scheduled_task_number_local :: "macro_taskq \<Rightarrow> error + int \<times> macro_taskq" where
  "get_scheduled_task_number_local s =
     (if universe_rank s \<noteq> 0 then Inl AssertFailed
      else case find_if_Waiting (heap s) (taskq s) of
             Inl e \<Rightarrow> Inl e
           | Inr it \<Rightarrow>
               if it \<noteq> length (taskq s)
               then Inr (int it,
                         s\<lparr>heap := (heap s)[taskq s ! it :=
                                              (heap s ! (taskq s ! it))\<lparr>stat := Running\<rparr>]\<rparr>)
               else Inr (- 1, s))"

text \<open>
  \<^verbatim>\<open>set_complete_local\<close>: \<^verbatim>\<open>MADNESS_ASSERT(universe.rank()==0);
  taskq[task_number]->set_complete();\<close> with \<^verbatim>\<open>operator[]\<close> unchecked.
\<close>

definition set_complete_local :: "int \<Rightarrow> macro_taskq \<Rightarrow> error + macro_taskq" where
  "set_complete_local task_number s =
     (if universe_rank s \<noteq> 0 then Inl AssertFailed
      else if task_number < 0 \<or> int (length (taskq s)) \<le> task_number then Inl OutOfRange
      else let a = taskq s ! nat task_number
           in if a < length (heap s)
              then Inr (s\<lparr>heap := (heap s)[a := (heap s ! a)\<lparr>stat := Complete\<rparr>]\<rparr>)
              else Inl BadPointer)"



subsection \<open>run\_all and map\<close>









lemma find_if_Waiting_le: "find_if_Waiting h ps = Inr n \<Longrightarrow> n \<le> length ps"
  by (induction ps arbitrary: n) (auto split: if_splits sum.splits)

lemma find_if_Waiting_found:
  "find_if_Waiting h ps = Inr n \<Longrightarrow> n \<noteq> length ps \<Longrightarrow>
   ps ! n < length h \<and> stat (h ! (ps ! n)) = Waiting"
  by (induction ps arbitrary: n) (auto split: if_splits sum.splits)

lemma find_if_Waiting_before:
  "find_if_Waiting h ps = Inr n \<Longrightarrow> j < n \<Longrightarrow>
   ps ! j < length h \<and> stat (h ! (ps ! j)) \<noteq> Waiting"
proof (induction ps arbitrary: n j)
  case Nil
  then show ?case by simp
next
  case (Cons p ps)
  then show ?case by (cases j) (auto split: if_splits sum.splits)
qed


















subsection \<open>Concrete tasks and queues\<close>

text \<open>
  The payload \<^verbatim>\<open>dataT(n,n,f)\<close> built when the counter \<^verbatim>\<open>ii\<close> stands at \<open>n\<close> (its file
  is \<^verbatim>\<open>dummy<n>\<close>), a task around it with a given priority and status, and a queue
  whose \<^verbatim>\<open>taskq\<close> points to the tasks of the heap in order, in a universe where every
  process is its own subworld. \<open>example_run\<close> stands for a computation that needs an
  initialised input function.
\<close>

definition example_data :: "nat \<Rightarrow> data_type" where
  "example_data n = fst (data_type_ctor (int n) (real n) (Some n) n)"

definition example_task :: "real \<Rightarrow> Status \<Rightarrow> nat \<Rightarrow> MacroTask" where
  "example_task p st n = (MacroTask_ctor (example_data n))\<lparr>priority := p, stat := st\<rparr>"

definition example_queue :: "nat \<Rightarrow> nat \<Rightarrow> MacroTask list \<Rightarrow> macro_taskq" where
  "example_queue usize urank h =
     \<lparr>universe_rank = urank, universe_size = usize, subworld_ptr = Some [urank],
      taskq = [0..<length h], heap = h, files = Map.empty, trace = []\<rparr>"



section \<open>Properties\<close>

subsection \<open>Facts about create\_worlds\<close>

lemma push_back_ranks_groups:
  assumes "0 < k" and "length pl = k"
  shows "push_back_ranks k xs pl =
           Inr (map (\<lambda>j. pl ! j @ filter (\<lambda>i. i mod k = j) xs) [0..<k])"
  using assms(2)
proof (induction xs arbitrary: pl)
  case Nil
  then show ?case using map_nth [of pl] by simp
next
  case (Cons x xs)
  let ?pl = "pl[x mod k := pl ! (x mod k) @ [x]]"
  have len: "length ?pl = k" using Cons.prems by simp
  have "map (\<lambda>j. ?pl ! j @ filter (\<lambda>i. i mod k = j) xs) [0..<k]
      = map (\<lambda>j. pl ! j @ filter (\<lambda>i. i mod k = j) (x # xs)) [0..<k]"
    using Cons.prems by (auto simp: nth_list_update)
  then show ?case using Cons.IH [OF len] assms(1) by simp
qed

lemma process_list_eq:
  assumes "0 < k"
  shows "push_back_ranks k [0..<n] (replicate k []) =
           Inr (map (\<lambda>j. filter (\<lambda>i. i mod k = j) [0..<n]) [0..<k])"
proof -
  have "push_back_ranks k [0..<n] (replicate k []) =
          Inr (map (\<lambda>j. replicate k [] ! j @ filter (\<lambda>i. i mod k = j) [0..<n]) [0..<k])"
    using assms by (rule push_back_ranks_groups) simp
  also have "map (\<lambda>j. replicate k [] ! j @ filter (\<lambda>i. i mod k = j) [0..<n]) [0..<k]
           = map (\<lambda>j. filter (\<lambda>i. i mod k = j) [0..<n]) [0..<k]"
    by simp
  finally show ?thesis .
qed

lemma reset_all_worlds_last:
  "reset_all_worlds r pls w =
     (case filter (\<lambda>pl. r \<in> set pl) pls of [] \<Rightarrow> w | x # xs \<Rightarrow> Some (last (x # xs)))"
  by (induction pls arbitrary: w) (auto split: list.splits)

lemma filter_eq_upt: "j < k \<Longrightarrow> filter (\<lambda>x. x = j) [0..<k] = [j]"
  by (induction k) (auto simp: less_Suc_eq)

lemma reset_all_worlds_groups:
  assumes "0 < k" and "r < n"
  shows "reset_all_worlds r (map (\<lambda>j. filter (\<lambda>i. i mod k = j) [0..<n]) [0..<k]) None
           = Some (filter (\<lambda>i. i mod k = r mod k) [0..<n])"
proof -
  have "filter (\<lambda>pl. r \<in> set pl) (map (\<lambda>j. filter (\<lambda>i. i mod k = j) [0..<n]) [0..<k])
      = map (\<lambda>j. filter (\<lambda>i. i mod k = j) [0..<n]) (filter (\<lambda>j. j = r mod k) [0..<k])"
    using assms(2) by (auto simp: filter_map o_def intro!: arg_cong [where f = "map _"] filter_cong)
  also have "\<dots> = [filter (\<lambda>i. i mod k = r mod k) [0..<n]]"
    using assms(1) by (simp add: filter_eq_upt)
  finally show ?thesis by (simp add: reset_all_worlds_last)
qed

lemma create_worlds_too_many:
  "N < k \<Longrightarrow> create_worlds N r k = Inl MadnessException"
  by (simp add: create_worlds_def)

lemma create_worlds_succeeds:
  assumes "1 \<le> k" and "k \<le> N" and "r < N"
  shows "create_worlds N r k = Inr (Some (filter (\<lambda>i. i mod k = r mod k) [0..<N]))"
proof -
  have k: "0 < k" using assms(1) by simp
  show ?thesis
    using assms(2) process_list_eq [OF k, of N] reset_all_worlds_groups [OF k assms(3)]
    by (simp add: create_worlds_def)
qed

lemma create_worlds_example: "create_worlds 5 3 2 = Inr (Some [1, 3])"
  by code_simp

lemma create_worlds_zero_any:
  "0 < N \<Longrightarrow> create_worlds N r 0 = Inl DivideByZero"
  by (simp add: create_worlds_def upt_rec [of 0 N])

text \<open>
  Through the constructor of the queue a negative \<^verbatim>\<open>int nworld\<close> becomes a \<^verbatim>\<open>size_t\<close>
  above every universe size and is refused by the guard; zero stays zero.
\<close>

lemma macro_taskq_ctor_negative:
  assumes "- (2 ^ 31) \<le> nworld" and "nworld < 0" and "N < 2 ^ 31"
  shows "macro_taskq_ctor N r nworld h fs = Inl MadnessException"
proof -
  have "(nworld + 2 ^ 64) mod 2 ^ 64 = nworld + 2 ^ 64"
    using assms(1,2) by (intro mod_pos_pos_trivial) auto
  then have "nworld mod 2 ^ 64 = nworld + 2 ^ 64"
    by simp
  then have "N < size_t_of_int nworld"
    using assms by (simp add: size_t_of_int_def)
  then show ?thesis
    by (simp add: macro_taskq_ctor_def create_worlds_def)
qed

lemma macro_taskq_ctor_zero:
  "macro_taskq_ctor 1 0 0 h fs = Inl DivideByZero"
  by (simp add: macro_taskq_ctor_def size_t_of_int_def create_worlds_def)

subsection \<open>Facts about the scheduler\<close>

lemma find_if_Waiting_none:
  assumes "find_if_Waiting h ps = Inr (length ps)"
  shows "\<forall>p\<in>set ps. stat (h ! p) \<noteq> Waiting"
  using find_if_Waiting_before [OF assms] by (auto simp: in_set_conv_nth)

lemma find_if_Waiting_valid:
  "\<forall>p\<in>set ps. p < length h \<Longrightarrow> \<exists>n. find_if_Waiting h ps = Inr n"
  by (induction ps) auto

lemma get_scheduled_task_number_local_rank:
  "universe_rank s \<noteq> 0 \<Longrightarrow> get_scheduled_task_number_local s = Inl AssertFailed"
  by (simp add: get_scheduled_task_number_local_def)

text \<open>
  \<^verbatim>\<open>localize\<close> of an initialised function of the origin world saves it, loads it and
  removes the file again.
\<close>

lemma localize_removes:
  "localize (Some h) True ident name s =
     Inr (Some h,
          s\<lparr>files := (files s)(name @ to_string ident := None),
            trace := trace s @ [Write (name @ to_string ident), Read (name @ to_string ident),
                                Remove (name @ to_string ident)]\<rparr>)"
  by (simp add: localize_def Let_def)

lemma set_complete_local_rank:
  "universe_rank s \<noteq> 0 \<Longrightarrow> set_complete_local n s = Inl AssertFailed"
  by (simp add: set_complete_local_def)




subsection \<open>Facts about the archive\<close>





subsection \<open>Facts about the loop of run\_all\<close>












subsection \<open>Facts about a whole batch\<close>




















section \<open>The partition into subworlds\<close>

text \<open>
  Claim C5. For a universe of \<open>N\<close> processes and a count \<open>k\<close> with \<open>1 \<le> k \<le> N\<close>, the
  loop of \<^verbatim>\<open>create_worlds\<close> builds \<open>k\<close> groups, and the process of rank \<open>r\<close> is given
  the world of group \<open>r mod k\<close>, whose ranks are exactly the \<open>r' < N\<close> with
  \<open>r' mod k = r mod k\<close>. Every rank of the universe lies in exactly one group, two
  different groups share no rank, and the groups together hold only ranks below \<open>N\<close>.
\<close>

theorem create_worlds_round_robin:
  assumes "1 \<le> k" and "k \<le> N" and "r < N"
  shows "\<exists>pl. push_back_ranks k [0..<N] (replicate k []) = Inr pl \<and> length pl = k
            \<and> create_worlds N r k = Inr (Some (pl ! (r mod k)))
            \<and> set (pl ! (r mod k)) = {r'. r' < N \<and> r' mod k = r mod k}
            \<and> (\<forall>r'<N. \<exists>!j. j < k \<and> r' \<in> set (pl ! j))
            \<and> (\<forall>a<k. \<forall>b<k. a \<noteq> b \<longrightarrow> set (pl ! a) \<inter> set (pl ! b) = {})
            \<and> (\<Union>j<k. set (pl ! j)) \<subseteq> {0..<N}"
proof -
  let ?pl = "map (\<lambda>j. filter (\<lambda>i. i mod k = j) [0..<N]) [0..<k]"
  have k: "0 < k" using assms(1) by simp
  have pl: "push_back_ranks k [0..<N] (replicate k []) = Inr ?pl"
    using k by (rule process_list_eq)
  have nth: "?pl ! j = filter (\<lambda>i. i mod k = j) [0..<N]" if "j < k" for j
    using that by simp
  have rk: "r mod k < k" using k by simp
  have cw: "create_worlds N r k = Inr (Some (?pl ! (r mod k)))"
    using assms(2) pl reset_all_worlds_groups [OF k assms(3)] nth [OF rk]
    by (simp add: create_worlds_def)
  have own: "set (?pl ! (r mod k)) = {r'. r' < N \<and> r' mod k = r mod k}"
    using nth [OF rk] by auto
  have one: "\<forall>r'<N. \<exists>!j. j < k \<and> r' \<in> set (?pl ! j)"
  proof (intro allI impI)
    fix r' assume "r' < N"
    show "\<exists>!j. j < k \<and> r' \<in> set (?pl ! j)"
    proof (rule ex1I [of _ "r' mod k"])
      show "r' mod k < k \<and> r' \<in> set (?pl ! (r' mod k))"
        using k \<open>r' < N\<close> by simp
    next
      fix j assume "j < k \<and> r' \<in> set (?pl ! j)"
      then show "j = r' mod k" by auto
    qed
  qed
  have disj: "\<forall>a<k. \<forall>b<k. a \<noteq> b \<longrightarrow> set (?pl ! a) \<inter> set (?pl ! b) = {}"
    by auto
  have un: "(\<Union>j<k. set (?pl ! j)) \<subseteq> {0..<N}"
    by auto
  show ?thesis
    using pl cw own one disj un by (intro exI [of _ ?pl]) simp
qed

text \<open>The theorem at a universe of five processes in two groups, for rank 3.\<close>

theorem create_worlds_round_robin_witness:
  "create_worlds 5 3 2 = Inr (Some [1, 3])"
proof -
  obtain pl where "push_back_ranks 2 [0..<5] (replicate 2 []) = Inr pl"
    and "create_worlds 5 3 2 = Inr (Some (pl ! (3 mod 2)))"
    using create_worlds_round_robin [of 2 5 3] by auto
  moreover have "push_back_ranks 2 [0..<5] (replicate 2 []) = Inr [[0, 2, 4], [1, 3]]"
    by code_simp
  ultimately have "create_worlds 5 3 2 = Inr (Some ([[0, 2, 4], [1, 3]] ! (3 mod 2)))"
    by simp
  then show ?thesis by simp
qed

text \<open>
  Claim C8. A count above the universe size is refused with the exception
  (\<open>create_worlds_too_many\<close>) and every count from 1 to the universe size is accepted
  (\<open>create_worlds_succeeds\<close>), but the count 0 passes the guard
  \<^verbatim>\<open>universe.size()<nworld\<close> and reaches \<^verbatim>\<open>i%nworld\<close>: in a universe of one process
  \<^verbatim>\<open>create_worlds(universe,0)\<close> ends in a remainder by zero, not in the exception.
\<close>

theorem create_worlds_zero:
  "create_worlds 1 0 0 = Inl DivideByZero"
  by (simp add: create_worlds_def)

section \<open>The scheduling step\<close>

text \<open>
  Claim C10. On rank 0, with every pointer of \<^verbatim>\<open>taskq\<close> pointing to a task, a call of
  \<^verbatim>\<open>get_scheduled_task_number_local\<close> returns. Either it returns -1, no task of the
  list is \<^verbatim>\<open>Waiting\<close> and nothing has changed; or it returns a position \<open>r\<close> with
  \<open>0 \<le> r < size\<close>, the task at \<open>r\<close> was \<^verbatim>\<open>Waiting\<close> and no task at a smaller position
  was, that task object is now the same but for \<^verbatim>\<open>stat = Running\<close>, and every other task
  object is unchanged. In both cases \<^verbatim>\<open>taskq\<close> itself (members and order) and all other
  parts of the state are as before.
\<close>

theorem get_scheduled_task_number_local_step:
  assumes "universe_rank s = 0" and "\<forall>p\<in>set (taskq s). p < length (heap s)"
  shows "\<exists>r s'. get_scheduled_task_number_local s = Inr (r, s')
           \<and> taskq s' = taskq s \<and> length (heap s') = length (heap s)
           \<and> s' = s\<lparr>heap := heap s'\<rparr>
           \<and> ((r = - 1 \<and> heap s' = heap s
                 \<and> (\<forall>p\<in>set (taskq s). stat (heap s ! p) \<noteq> Waiting))
              \<or> (0 \<le> r \<and> r < int (length (taskq s))
                 \<and> stat (heap s ! (taskq s ! nat r)) = Waiting
                 \<and> (\<forall>j<nat r. stat (heap s ! (taskq s ! j)) \<noteq> Waiting)
                 \<and> heap s' ! (taskq s ! nat r)
                     = (heap s ! (taskq s ! nat r))\<lparr>stat := Running\<rparr>
                 \<and> (\<forall>b. b \<noteq> taskq s ! nat r \<longrightarrow> heap s' ! b = heap s ! b)))"
proof -
  obtain n where n: "find_if_Waiting (heap s) (taskq s) = Inr n"
    using find_if_Waiting_valid [OF assms(2)] by blast
  show ?thesis
  proof (cases "n = length (taskq s)")
    case True
    then have "\<forall>p\<in>set (taskq s). stat (heap s ! p) \<noteq> Waiting"
      using find_if_Waiting_none n by blast
    then show ?thesis
      using assms(1) n True by (simp add: get_scheduled_task_number_local_def)
  next
    case False
    have le: "n < length (taskq s)"
      using find_if_Waiting_le [OF n] False by simp
    have found: "taskq s ! n < length (heap s)" "stat (heap s ! (taskq s ! n)) = Waiting"
      using find_if_Waiting_found [OF n False] by simp_all
    have before: "\<forall>j<n. stat (heap s ! (taskq s ! j)) \<noteq> Waiting"
      using find_if_Waiting_before [OF n] by blast
    show ?thesis
      using assms(1) n False le found before
      by (simp add: get_scheduled_task_number_local_def)
  qed
qed

text \<open>
  A queue of a completed and a waiting task: the call returns 1 and the second task is
  running.
\<close>

theorem get_scheduled_task_number_local_step_witness:
  "get_scheduled_task_number_local
     (example_queue 1 0 [example_task 0 Complete 0, example_task 0 Waiting 1])
   = Inr (1, example_queue 1 0 [example_task 0 Complete 0, example_task 0 Running 1])"
proof -
  let ?q = "example_queue 1 0 [example_task 0 Complete 0, example_task 0 Waiting 1]"
  obtain r s' where step: "get_scheduled_task_number_local ?q = Inr (r, s')"
    and "taskq s' = taskq ?q"
    using get_scheduled_task_number_local_step [of ?q]
    by (auto simp: example_queue_def)
  have "get_scheduled_task_number_local ?q
          = Inr (1, example_queue 1 0 [example_task 0 Complete 0, example_task 0 Running 1])"
    by (simp add: get_scheduled_task_number_local_def example_queue_def example_task_def)
  with step show ?thesis by simp
qed

text \<open>
  Claim C1 as stated fails: \<^verbatim>\<open>is_Waiting\<close> reads \<^verbatim>\<open>stat\<close> only, and \<^verbatim>\<open>priority\<close> is read
  nowhere in the file. With a waiting task of priority 0 at position 0 and a waiting task
  of priority 5 at position 1, the call returns 0 and leaves the task of priority 5
  waiting.
\<close>

theorem priority_not_consulted:
  "get_scheduled_task_number_local
     (example_queue 1 0 [example_task 0 Waiting 0, example_task 5 Waiting 1])
   = Inr (0, example_queue 1 0 [example_task 0 Running 0, example_task 5 Waiting 1])"
  by (simp add: get_scheduled_task_number_local_def example_queue_def example_task_def)

text \<open>
  Claim C1, amended. On rank 0, with every pointer of \<^verbatim>\<open>taskq\<close> pointing to a task and
  a \<^verbatim>\<open>Waiting\<close> task at position \<open>i\<close>, the call returns the smallest position \<open>n\<close> whose
  task is \<^verbatim>\<open>Waiting\<close>, whatever the priorities, and marks that task \<^verbatim>\<open>Running\<close>. So
  \<open>n \<le> i\<close>: of two waiting tasks at \<open>i < j\<close> (of equal priority or not) the call never
  returns \<open>j\<close>, and every task of the list that is another object than the one claimed
  is untouched (the one at \<open>j\<close> is still waiting).
\<close>

theorem get_scheduled_task_number_local_first_waiting:
  assumes "universe_rank s = 0" and "\<forall>p\<in>set (taskq s). p < length (heap s)"
    and "i < length (taskq s)" and "stat (heap s ! (taskq s ! i)) = Waiting"
  shows "\<exists>n s'. get_scheduled_task_number_local s = Inr (int n, s')
           \<and> n \<le> i
           \<and> stat (heap s ! (taskq s ! n)) = Waiting
           \<and> (\<forall>j<n. stat (heap s ! (taskq s ! j)) \<noteq> Waiting)
           \<and> stat (heap s' ! (taskq s ! n)) = Running
           \<and> (\<forall>j<length (taskq s). taskq s ! j \<noteq> taskq s ! n \<longrightarrow>
                 heap s' ! (taskq s ! j) = heap s ! (taskq s ! j))"
proof -
  obtain n where n: "find_if_Waiting (heap s) (taskq s) = Inr n"
    using find_if_Waiting_valid [OF assms(2)] by blast
  have ni: "n \<le> i"
  proof (rule ccontr)
    assume "\<not> n \<le> i"
    then have "i < n" by simp
    then show False using find_if_Waiting_before [OF n] assms(4) by blast
  qed
  then have neq: "n \<noteq> length (taskq s)" using assms(3) by simp
  have found: "taskq s ! n < length (heap s)" "stat (heap s ! (taskq s ! n)) = Waiting"
    using find_if_Waiting_found [OF n neq] by simp_all
  have before: "\<forall>j<n. stat (heap s ! (taskq s ! j)) \<noteq> Waiting"
    using find_if_Waiting_before [OF n] by blast
  show ?thesis
    using assms(1) n neq ni found before
    by (simp add: get_scheduled_task_number_local_def)
qed

text \<open>Two waiting tasks of priority 5: the first is claimed, the second untouched.\<close>

theorem get_scheduled_task_number_local_first_waiting_witness:
  "\<exists>n s'. get_scheduled_task_number_local
             (example_queue 1 0 [example_task 5 Waiting 0, example_task 5 Waiting 1]) = Inr (int n, s')
           \<and> n = 0 \<and> stat (heap s' ! 0) = Running \<and> heap s' ! 1 = example_task 5 Waiting 1"
  using get_scheduled_task_number_local_first_waiting
          [of "example_queue 1 0 [example_task 5 Waiting 0, example_task 5 Waiting 1]" 0]
  by (auto simp: example_queue_def example_task_def)

section \<open>Completion\<close>

text \<open>
  Claim C3 as stated fails: \<^verbatim>\<open>set_complete_local\<close> asserts \<^verbatim>\<open>universe.rank()==0\<close> and
  nothing about the status. Called for a task that is \<^verbatim>\<open>Waiting\<close>, not \<^verbatim>\<open>Running\<close>, it
  returns normally with the task \<^verbatim>\<open>Complete\<close>.
\<close>

theorem set_complete_local_on_waiting:
  "set_complete_local 0 (example_queue 1 0 [example_task 0 Waiting 0])
   = Inr (example_queue 1 0 [example_task 0 Complete 0])"
  by (simp add: set_complete_local_def example_queue_def example_task_def)

text \<open>
  Claim C3, amended. On rank 0 (elsewhere the assertion fails, \<open>set_complete_local_rank\<close>),
  for a task number inside \<^verbatim>\<open>taskq\<close> whose pointer points to a task,
  \<^verbatim>\<open>set_complete_local\<close> returns normally from every status of the task and sets the
  status to \<^verbatim>\<open>Complete\<close>; nothing else changes.
\<close>

theorem set_complete_local_any_status:
  assumes "universe_rank s = 0" and "0 \<le> n" and "n < int (length (taskq s))"
    and "taskq s ! nat n < length (heap s)"
  shows "\<exists>s'. set_complete_local n s = Inr s'
           \<and> s' = s\<lparr>heap := (heap s)[taskq s ! nat n :=
                                      (heap s ! (taskq s ! nat n))\<lparr>stat := Complete\<rparr>]\<rparr>
           \<and> stat (heap s' ! (taskq s ! nat n)) = Complete"
  using assms by (simp add: set_complete_local_def Let_def)

text \<open>A task that was never waiting or running (\<^verbatim>\<open>Unknown\<close>) is set complete.\<close>

theorem set_complete_local_any_status_witness:
  "\<exists>s'. set_complete_local 0 (example_queue 1 0 [example_task 0 Unknown 0]) = Inr s'
           \<and> stat (heap s' ! 0) = Complete"
  using set_complete_local_any_status [of "example_queue 1 0 [example_task 0 Unknown 0]" 0]
  by (auto simp: example_queue_def)

section \<open>Enrollment\<close>




section \<open>map\<close>



section \<open>Archiving\<close>



section \<open>The order of the steps in the loop\<close>




section \<open>The files of a batch\<close>




end
